theory Spec2Isabelle
  imports Main "HOL-Library.Word" "HOL-Library.AList"
begin

section \<open>Shared vocabulary\<close>

text \<open>
  The firmware runs on a 32-bit target: \<open>size_t\<close>, \<open>unsigned long\<close> and \<open>uint32_t\<close> are
  32-bit words, \<open>uint8_t\<close> is an 8-bit word. Strings (\<open>String\<close>, \<open>const char *\<close>,
  \<open>std::string_view\<close>) are character lists.
\<close>

type_synonym u8 = "8 word"
type_synonym u16 = "16 word"
type_synonym u32 = "32 word"

datatype loglevel = LOGLEVEL_ERROR | LOGLEVEL_NOTICE | LOGLEVEL_INFO | LOGLEVEL_DEBUG

text \<open>
  Calls that leave the translated functions (audio engine, logger, key-value store wrapper,
  websocket broadcast, message bus, queues, LED and system services) are recorded, in call
  order, in a trace. Log messages and topics are named by their C identifier; a
  \<open>Log_Printf\<close> is recorded with the identifier of its format.
\<close>

datatype mqtt_payload = PayloadStr string | PayloadNum u32

text \<open>
  A \<open>JsonObject\<close>: members in insertion order; assigning to a member replaces its value
  or appends the member (\<open>AList.update\<close>). The capacity of the JSON document is not
  modelled.
\<close>

datatype json_value = JString string | JNumber nat

type_synonym JsonObject = "(string \<times> json_value) list"

datatype event =
    Audio_stopSong
  | Audio_pauseResume
  | Audio_connecttoFS string
  | Audio_setTitle string
  | AudioPlayer_ClearCover
  | AudioPlayer_NvsRfidWriteWrapper string string u32 u8 nat nat
  | AudioPlayer_VolumeToQueueSender u32 bool
  | AudioPlayer_TrackControlToQueueSender u8
  | Log_Println string loglevel
  | Log_Printf loglevel string
  | publishMqtt string mqtt_payload
  | Web_SendWebsocketData nat string
  | xQueueSend_gRfidCardQueue string
  | System_IndicateError
  | System_IndicateOk
  | System_RequestSleep
  | System_DisableSleepTimer
  | System_SetSleepTimer u8
  | System_SetLockControls bool
  | Led_Indicate string
  | Led_SetNightmode bool
  | Led_SetBrightness u8
  | System_UpdateActivityTimer
  | xTaskCreatePinnedToCore string
  | xTaskNotify nat
  | xSemaphoreTake
  | xSemaphoreGive
  | request_onDisconnect
  | request_send nat
  | request_send_text nat string
  | request_send_json JsonObject
  | uploadFile_close
  | feedTheDog
  | AudioPlayer_ProcessPause
  | AudioPlayer_ProcessResume
  | Led_TaskPause
  | Led_TaskResume
  | Rfid_TaskPause
  | Rfid_TaskResume
  | Web_DumpNvsToSd string string

section \<open>Shared playback state\<close>

text \<open>
  \<open>gPlayProperties\<close>, with the fields the translated functions touch, and the trace.
  \<open>playlist\<close> is a pointer to a vector of track references: \<open>None\<close> is the null pointer.
\<close>

record sys =
  playMode :: u8
  playlist :: "string list option"
  pausePlay :: bool
  playlistFinished :: bool
  trackFinished :: bool
  repeatCurrentTrack :: bool
  repeatPlaylist :: bool
  currentTrackNumber :: nat
  saveLastPlayPosition :: bool
  playRfidTag :: string
  sleepAfterPlaylist :: bool
  sleepAfterCurrentTrack :: bool
  playUntilTrackNumber :: nat
  trace :: "event list"

definition emit :: "event \<Rightarrow> sys \<Rightarrow> sys" where
  "emit e s = s\<lparr>trace := trace s @ [e]\<rparr>"

text \<open>
  What the audio engine answers when asked. The engine itself is a vendored library; its
  getters are read as given values, its commands are recorded in the trace.
\<close>

record Audio =
  getFilePos :: u32
  inBufferFilled :: u32
  getAudioCurrentTime :: u32
  connecttoFS :: bool

text \<open>
  Constants, compile-time switches and helpers that the translated functions use and that
  are declared in headers outside the translated files (\<open>values.h\<close>, \<open>settings.h\<close>,
  \<open>AudioPlayer.h\<close>): they are parameters of the model. \<open>trackNumberBits\<close> and
  \<open>playUntilBits\<close> are the widths of the unsigned fields \<open>currentTrackNumber\<close> and
  \<open>playUntilTrackNumber\<close>; both are narrower than \<open>int\<close>, so that arithmetic on them is
  done after integer promotion and only the store back truncates.
\<close>

record values_h =
  STOP :: u8
  PAUSEPLAY :: u8
  NEXTTRACK :: u8
  PREVIOUSTRACK :: u8
  FIRSTTRACK :: u8
  LASTTRACK :: u8
  NO_PLAYLIST :: u8
  WEBSTREAM :: u8
  LOCAL_M3U :: u8
  NO_REPEAT :: u8
  TRACK :: u8
  PLAYLIST :: u8
  TRACK_N_PLAYLIST :: u8
  MQTT_ENABLE :: bool
  trackNumberBits :: nat
  playUntilBits :: nat
  cardIdStringSize :: nat
  AudioPlayer_GetRepeatMode :: "sys \<Rightarrow> u8"

text \<open>
  A \<open>switch\<close> needs pairwise different case labels, and \<open>executeTrackCommand\<close> has the
  label \<open>0\<close> of its own.
\<close>

definition track_labels_ok :: "values_h \<Rightarrow> bool" where
  "track_labels_ok v =
     distinct [0, STOP v, PAUSEPLAY v, NEXTTRACK v, PREVIOUSTRACK v, FIRSTTRACK v, LASTTRACK v]"

datatype fault = NullPlaylist | PlaylistOutOfRange

section \<open>Track control: \<open>executeTrackCommand\<close>\<close>

text \<open>
  \<open>AudioPlayer_NvsRfidWriteWrapper(playRfidTag, playlist->at(currentTrackNumber), pos,
  playMode, currentTrackNumber, playlist->size())\<close>: the call dereferences the playlist
  pointer and \<open>at\<close> checks the index.
\<close>

definition call_NvsRfidWriteWrapper :: "u32 \<Rightarrow> sys \<Rightarrow> fault + sys" where
  "call_NvsRfidWriteWrapper pos s =
     (case playlist s of
        None \<Rightarrow> Inl NullPlaylist
      | Some pl \<Rightarrow>
          if currentTrackNumber s < length pl
          then Inr (emit (AudioPlayer_NvsRfidWriteWrapper (playRfidTag s)
                      (pl ! currentTrackNumber s) pos (playMode s)
                      (currentTrackNumber s) (length pl)) s)
          else Inl PlaylistOutOfRange)"

text \<open>\<open>if (pausePlay) { audio->pauseResume(); pausePlay = false; }\<close>\<close>

definition resume_if_paused :: "sys \<Rightarrow> sys" where
  "resume_if_paused s =
     (if pausePlay s then (emit Audio_pauseResume s)\<lparr>pausePlay := False\<rparr> else s)"

text \<open>\<open>if (repeatCurrentTrack) { repeatCurrentTrack = false; publishMqtt(...); }\<close>\<close>

definition end_track_repeat :: "values_h \<Rightarrow> sys \<Rightarrow> sys" where
  "end_track_repeat v s =
     (if repeatCurrentTrack s
      then (let s1 = s\<lparr>repeatCurrentTrack := False\<rparr>
            in if MQTT_ENABLE v
               then emit (publishMqtt ''topicRepeatModeState''
                            (PayloadNum (ucast (AudioPlayer_GetRepeatMode v s1)))) s1
               else s1)
      else s)"

text \<open>
  \<open>if (saveLastPlayPosition) { AudioPlayer_NvsRfidWriteWrapper(..., 0, ...);
  Log_Println(trackStartAudiobook, LOGLEVEL_INFO); }\<close>
\<close>

definition save_track_start :: "sys \<Rightarrow> fault + sys" where
  "save_track_start s =
     (if saveLastPlayPosition s
      then (case call_NvsRfidWriteWrapper 0 s of
              Inl e \<Rightarrow> Inl e
            | Inr s1 \<Rightarrow> Inr (emit (Log_Println ''trackStartAudiobook'' LOGLEVEL_INFO) s1))
      else Inr s)"

text \<open>\<open>Log_Println(msg, LOGLEVEL_INFO); if (!playlistFinished) { audio->stopSong(); }\<close>\<close>

definition log_and_stop :: "string \<Rightarrow> sys \<Rightarrow> sys" where
  "log_and_stop msg s =
     (let s1 = emit (Log_Println msg LOGLEVEL_INFO) s
      in if \<not> playlistFinished s1 then emit Audio_stopSong s1 else s1)"

definition case_STOP :: "values_h \<Rightarrow> sys \<Rightarrow> sys" where
  "case_STOP v s =
     emit AudioPlayer_ClearCover
       (emit (Audio_setTitle ''noPlaylist'')
          ((emit (Log_Println ''cmndStop'' LOGLEVEL_INFO) (emit Audio_stopSong s))
             \<lparr>pausePlay := True, playlistFinished := True, playMode := NO_PLAYLIST v\<rparr>))"

text \<open>
  PAUSEPLAY up to and including the conditional write of the play position (source lines
  52 to 61); the flag \<open>pausePlay\<close> is still the one the command found.
\<close>

definition pauseplay_save :: "Audio \<Rightarrow> sys \<Rightarrow> fault + sys" where
  "pauseplay_save a s =
     (let s1 = emit Audio_pauseResume s;
          s2 = (if pausePlay s1
                then emit (Log_Println ''cmndResumeFromPause'' LOGLEVEL_INFO) s1
                else emit (Log_Println ''cmndPause'' LOGLEVEL_INFO) s1)
      in if saveLastPlayPosition s2 \<and> \<not> pausePlay s2
         then call_NvsRfidWriteWrapper (getFilePos a - inBufferFilled a)
                (emit (Log_Printf LOGLEVEL_INFO ''trackPausedAtPos'') s2)
         else Inr s2)"

definition case_PAUSEPLAY :: "Audio \<Rightarrow> sys \<Rightarrow> fault + sys" where
  "case_PAUSEPLAY a s =
     (case pauseplay_save a s of
        Inl e \<Rightarrow> Inl e
      | Inr s1 \<Rightarrow>
          Inr (emit (Web_SendWebsocketData 0 ''TrackInfo'')
                 (s1\<lparr>pausePlay := \<not> pausePlay s1\<rparr>)))"

definition case_NEXTTRACK :: "values_h \<Rightarrow> sys \<Rightarrow> fault + sys" where
  "case_NEXTTRACK v s =
     (let s1 = end_track_repeat v (resume_if_paused s)
      in case playlist s1 of
           None \<Rightarrow> Inl NullPlaylist
         | Some pl \<Rightarrow>
             if currentTrackNumber s1 + 1 < length pl \<or> repeatPlaylist s1
             then (let s2 = (if currentTrackNumber s1 + 1 \<ge> length pl \<and> repeatPlaylist s1
                             then s1\<lparr>currentTrackNumber := 0\<rparr>
                             else s1\<lparr>currentTrackNumber :=
                                       (currentTrackNumber s1 + 1) mod 2 ^ trackNumberBits v\<rparr>)
                   in case save_track_start s2 of
                        Inl e \<Rightarrow> Inl e
                      | Inr s3 \<Rightarrow> Inr (log_and_stop ''cmndNextTrack'' s3))
             else Inr (emit System_IndicateError
                         (emit (Log_Println ''lastTrackAlreadyActive'' LOGLEVEL_NOTICE) s1)))"

text \<open>
  The last branch of PREVIOUSTRACK (neither webstream nor m3u). \<open>playlist->size() - 1\<close> is
  computed in \<open>size_t\<close> and truncated by the store into the field.
\<close>

definition previous_default :: "values_h \<Rightarrow> Audio \<Rightarrow> sys \<Rightarrow> fault + sys" where
  "previous_default v a s =
     (if currentTrackNumber s > 0 \<or> repeatPlaylist s
      then (case (if getAudioCurrentTime a < 5
                  then (if currentTrackNumber s = 0 \<and> repeatPlaylist s
                        then (case playlist s of
                                None \<Rightarrow> Inl NullPlaylist
                              | Some pl \<Rightarrow>
                                  Inr (s\<lparr>currentTrackNumber :=
                                          ((length pl + 2 ^ 32 - 1) mod 2 ^ 32)
                                             mod 2 ^ trackNumberBits v\<rparr>))
                        else Inr (s\<lparr>currentTrackNumber :=
                                      (currentTrackNumber s + 2 ^ trackNumberBits v - 1)
                                         mod 2 ^ trackNumberBits v\<rparr>))
                  else Inr s) of
              Inl e \<Rightarrow> Inl e
            | Inr s1 \<Rightarrow>
                (case save_track_start s1 of
                   Inl e \<Rightarrow> Inl e
                 | Inr s2 \<Rightarrow> Inr (log_and_stop ''cmndPrevTrack'' s2)))
      else (case (if saveLastPlayPosition s then call_NvsRfidWriteWrapper 0 s else Inr s) of
              Inl e \<Rightarrow> Inl e
            | Inr s1 \<Rightarrow>
                (let s2 = emit (Led_Indicate ''Rewind'') (emit Audio_stopSong s1)
                 in case playlist s2 of
                      None \<Rightarrow> Inl NullPlaylist
                    | Some pl \<Rightarrow>
                        if currentTrackNumber s2 < length pl
                        then (let s3 = emit (Audio_connecttoFS (pl ! currentTrackNumber s2)) s2
                              in if \<not> connecttoFS a
                                 then Inr ((emit System_IndicateError s3)\<lparr>trackFinished := True\<rparr>)
                                 else Inr (emit (Log_Println ''trackStart'' LOGLEVEL_INFO) s3))
                        else Inl PlaylistOutOfRange)))"

definition case_PREVIOUSTRACK :: "values_h \<Rightarrow> Audio \<Rightarrow> sys \<Rightarrow> fault + sys" where
  "case_PREVIOUSTRACK v a s =
     (let s1 = end_track_repeat v (resume_if_paused s)
      in if playMode s1 = WEBSTREAM v
         then Inr (emit System_IndicateError
                     (emit (Log_Println ''trackChangeWebstream'' LOGLEVEL_INFO) s1))
         else if playMode s1 = LOCAL_M3U v
         then (let s2 = emit (Log_Println ''cmndPrevTrack'' LOGLEVEL_INFO) s1
               in if currentTrackNumber s2 > 0
                  then Inr (s2\<lparr>currentTrackNumber :=
                                (currentTrackNumber s2 + 2 ^ trackNumberBits v - 1)
                                   mod 2 ^ trackNumberBits v\<rparr>)
                  else Inr (emit System_IndicateError s2))
         else previous_default v a s1)"

definition case_FIRSTTRACK :: "sys \<Rightarrow> fault + sys" where
  "case_FIRSTTRACK s =
     (let s1 = (resume_if_paused s)\<lparr>currentTrackNumber := 0\<rparr>
      in case save_track_start s1 of
           Inl e \<Rightarrow> Inl e
         | Inr s2 \<Rightarrow> Inr (log_and_stop ''cmndFirstTrack'' s2))"

definition case_LASTTRACK :: "values_h \<Rightarrow> sys \<Rightarrow> fault + sys" where
  "case_LASTTRACK v s =
     (let s1 = resume_if_paused s
      in case playlist s1 of
           None \<Rightarrow> Inl NullPlaylist
         | Some pl \<Rightarrow>
             if currentTrackNumber s1 + 1 < length pl
             then (case save_track_start
                          (s1\<lparr>currentTrackNumber :=
                                ((length pl + 2 ^ 32 - 1) mod 2 ^ 32) mod 2 ^ trackNumberBits v\<rparr>) of
                     Inl e \<Rightarrow> Inl e
                   | Inr s2 \<Rightarrow> Inr (log_and_stop ''cmndLastTrack'' s2))
             else Inr (emit System_IndicateError
                         (emit (Log_Println ''lastTrackAlreadyActive'' LOGLEVEL_NOTICE) s1)))"

text \<open>
  The function itself: the guard on the engine pointer (\<open>None\<close> is the null pointer), then
  the \<open>switch\<close> on the command byte.
\<close>

definition executeTrackCommand :: "values_h \<Rightarrow> Audio option \<Rightarrow> u8 \<Rightarrow> sys \<Rightarrow> fault + sys" where
  "executeTrackCommand v audio cmd s =
     (case audio of
        None \<Rightarrow> Inr s
      | Some a \<Rightarrow>
          if cmd = STOP v then Inr (case_STOP v s)
          else if cmd = PAUSEPLAY v then case_PAUSEPLAY a s
          else if cmd = NEXTTRACK v then case_NEXTTRACK v s
          else if cmd = PREVIOUSTRACK v then case_PREVIOUSTRACK v a s
          else if cmd = FIRSTTRACK v then case_FIRSTTRACK s
          else if cmd = LASTTRACK v then case_LASTTRACK v s
          else if cmd = 0 then Inr s
          else Inr (emit System_IndicateError
                      (emit (Log_Println ''cmndDoesNotExist'' LOGLEVEL_NOTICE) s)))"

section \<open>Message bus: \<open>toNumber\<close> and \<open>Mqtt_ClientCallback\<close>\<close>

text \<open>
  \<open>std::from_chars\<close> in base 10, as the C++ standard describes it: no leading white space,
  no \<open>+\<close>, a \<open>-\<close> only for a signed target; the longest run of digits is read; no digit
  at all is \<open>invalid_argument\<close>, a value outside the target type is
  \<open>result_out_of_range\<close>; characters after the digits are left alone.
\<close>

definition is_digit :: "char \<Rightarrow> bool" where
  "is_digit c = (48 \<le> (of_char c :: nat) \<and> (of_char c :: nat) \<le> 57)"

definition digit_val :: "char \<Rightarrow> nat" where
  "digit_val c = of_char c - 48"

definition dec_value :: "string \<Rightarrow> nat" where
  "dec_value ds = foldl (\<lambda>acc c. 10 * acc + digit_val c) 0 ds"

datatype 'a from_chars_result = Parsed 'a | Result_out_of_range | Invalid_argument

definition from_chars_unsigned :: "nat \<Rightarrow> string \<Rightarrow> nat from_chars_result" where
  "from_chars_unsigned max_value str =
     (let ds = takeWhile is_digit str
      in if ds = [] then Invalid_argument
         else if dec_value ds > max_value then Result_out_of_range
         else Parsed (dec_value ds))"

definition from_chars_signed :: "int \<Rightarrow> int \<Rightarrow> string \<Rightarrow> int from_chars_result" where
  "from_chars_signed min_value max_value str =
     (let neg = (str \<noteq> [] \<and> hd str = CHR ''-'');
          ds = takeWhile is_digit (if neg then tl str else str);
          n = (if neg then - int (dec_value ds) else int (dec_value ds))
      in if ds = [] then Invalid_argument
         else if n < min_value \<or> max_value < n then Result_out_of_range
         else Parsed n)"

text \<open>\<open>toNumber<uint8_t>\<close> and \<open>toNumber<int32_t>\<close>, the two instances in use.\<close>

definition toNumber_uint8 :: "string \<Rightarrow> u8" where
  "toNumber_uint8 str =
     (case from_chars_unsigned 255 str of
        Parsed n \<Rightarrow> of_nat n
      | Result_out_of_range \<Rightarrow> 255
      | Invalid_argument \<Rightarrow> 0)"

definition toNumber_int32 :: "string \<Rightarrow> int" where
  "toNumber_int32 str =
     (case from_chars_signed (- (2 ^ 31)) (2 ^ 31 - 1) str of
        Parsed n \<Rightarrow> n
      | Result_out_of_range \<Rightarrow> 2 ^ 31 - 1
      | Invalid_argument \<Rightarrow> 0)"

text \<open>The command topics of \<open>settings.h\<close>, compared with the incoming topic in this order.\<close>

record mqtt_topics =
  topicSleepCmnd :: string
  topicRfidCmnd :: string
  topicLoudnessCmnd :: string
  topicSleepTimerCmnd :: string
  topicTrackControlCmnd :: string
  topicLockControlsCmnd :: string
  topicRepeatModeCmnd :: string
  topicLedBrightnessCmnd :: string

definition sleep_timer_branch :: "values_h \<Rightarrow> bool \<Rightarrow> string \<Rightarrow> sys \<Rightarrow> sys" where
  "sleep_timer_branch v System_IsSleepTimerEnabled receivedString s =
     (if playMode s = NO_PLAYLIST v
      then emit System_IndicateError
             (emit (publishMqtt ''topicSleepState'' (PayloadNum 0))
                (emit (Log_Println ''modificatorNotallowedWhenIdle'' LOGLEVEL_INFO) s))
      else if receivedString = ''EOP''
      then emit System_IndicateOk
             (emit (Led_SetNightmode True)
                (emit (publishMqtt ''topicSleepTimerState'' (PayloadStr ''EOP''))
                   (emit (Log_Println ''sleepTimerEOP'' LOGLEVEL_NOTICE)
                      (s\<lparr>sleepAfterPlaylist := True\<rparr>))))
      else if receivedString = ''EOT''
      then emit System_IndicateOk
             (emit (Led_SetNightmode True)
                (emit (publishMqtt ''topicSleepTimerState'' (PayloadStr ''EOT''))
                   (emit (Log_Println ''sleepTimerEOT'' LOGLEVEL_NOTICE)
                      (s\<lparr>sleepAfterCurrentTrack := True\<rparr>))))
      else if receivedString = ''EO5T''
      then (case (if playMode s = NO_PLAYLIST v then None else playlist s) of
              None \<Rightarrow>
                emit System_IndicateError
                  (emit (Log_Println ''modificatorNotallowedWhenIdle'' LOGLEVEL_NOTICE) s)
            | Some pl \<Rightarrow>
                emit System_IndicateOk
                  (emit (Led_SetNightmode True)
                     (emit (publishMqtt ''topicSleepTimerState'' (PayloadStr ''EO5T''))
                        (emit (Log_Println ''sleepTimerEO5'' LOGLEVEL_NOTICE)
                           (if (length pl + 2 ^ 32 - 1) mod 2 ^ 32 \<ge> currentTrackNumber s + 5
                            then s\<lparr>playUntilTrackNumber :=
                                     (currentTrackNumber s + 5) mod 2 ^ playUntilBits v\<rparr>
                            else s\<lparr>sleepAfterPlaylist := True\<rparr>)))))
      else if receivedString = ''0''
      then (if System_IsSleepTimerEnabled
            then (emit (publishMqtt ''topicSleepState'' (PayloadNum 0))
                    (emit (Led_SetNightmode False)
                       (emit System_IndicateOk
                          (emit (Log_Println ''sleepTimerStop'' LOGLEVEL_NOTICE)
                             (emit System_DisableSleepTimer s)))))
                 \<lparr>sleepAfterPlaylist := False, sleepAfterCurrentTrack := False,
                  playUntilTrackNumber := 0\<rparr>
            else emit System_IndicateError
                   (emit (Log_Println ''sleepTimerAlreadyStopped'' LOGLEVEL_INFO) s))
      else (emit System_IndicateOk
              (emit (Log_Printf LOGLEVEL_NOTICE ''sleepTimerSetTo'')
                 (emit (System_SetSleepTimer (toNumber_uint8 receivedString)) s)))
           \<lparr>sleepAfterPlaylist := False, sleepAfterCurrentTrack := False\<rparr>)"

definition lock_controls_branch :: "string \<Rightarrow> sys \<Rightarrow> sys" where
  "lock_controls_branch receivedString s =
     (if receivedString = ''OFF''
      then emit System_IndicateOk
             (emit (publishMqtt ''topicLockControlsState'' (PayloadStr ''OFF''))
                (emit (Log_Println ''allowButtons'' LOGLEVEL_NOTICE)
                   (emit (System_SetLockControls False) s)))
      else if receivedString = ''ON''
      then emit System_IndicateOk
             (emit (publishMqtt ''topicLockControlsState'' (PayloadStr ''ON''))
                (emit (Log_Println ''lockButtons'' LOGLEVEL_NOTICE)
                   (emit (System_SetLockControls True) s)))
      else s)"

text \<open>
  One \<open>case\<close> of the repeat-mode \<open>switch\<close>: the two flags are set, the state is published,
  the mode is logged and success is indicated.
\<close>

definition set_repeat :: "values_h \<Rightarrow> bool \<Rightarrow> bool \<Rightarrow> string \<Rightarrow> sys \<Rightarrow> sys" where
  "set_repeat v rt rp msg s =
     (let s1 = s\<lparr>repeatCurrentTrack := rt, repeatPlaylist := rp\<rparr>
      in emit System_IndicateOk
           (emit (Log_Println msg LOGLEVEL_INFO)
              (emit (publishMqtt ''topicRepeatModeState''
                       (PayloadNum (ucast (AudioPlayer_GetRepeatMode v s1)))) s1)))"

definition repeat_mode_branch :: "values_h \<Rightarrow> string \<Rightarrow> sys \<Rightarrow> sys" where
  "repeat_mode_branch v receivedString s =
     (let repeatMode = toNumber_uint8 receivedString;
          s1 = emit (Log_Printf LOGLEVEL_NOTICE ''Repeat: %d'') s
      in if playMode s1 \<noteq> NO_PLAYLIST v
         then (if playMode s1 = NO_PLAYLIST v
               then emit System_IndicateError
                      (emit (Log_Println ''noPlaylistNotAllowedMqtt'' LOGLEVEL_ERROR)
                         (emit (publishMqtt ''topicRepeatModeState''
                                  (PayloadNum (ucast (AudioPlayer_GetRepeatMode v s1)))) s1))
               else if repeatMode = NO_REPEAT v
               then set_repeat v False False ''modeRepeatNone'' s1
               else if repeatMode = TRACK v
               then set_repeat v True False ''modeRepeatTrack'' s1
               else if repeatMode = PLAYLIST v
               then set_repeat v False True ''modeRepeatPlaylist'' s1
               else if repeatMode = TRACK_N_PLAYLIST v
               then set_repeat v True True ''modeRepeatTracknPlaylist'' s1
               else emit (publishMqtt ''topicRepeatModeState''
                            (PayloadNum (ucast (AudioPlayer_GetRepeatMode v s1))))
                      (emit System_IndicateError s1))
         else s1)"

text \<open>
  The callback. \<open>payload\<close> holds the \<open>length\<close> bytes of the message, so that the length
  test of the source is the test for the empty list; without \<open>MQTT_ENABLE\<close> the body is
  empty. \<open>System_IsSleepTimerEnabled\<close> is what the system service answers.
\<close>

definition Mqtt_ClientCallback ::
  "values_h \<Rightarrow> mqtt_topics \<Rightarrow> bool \<Rightarrow> string \<Rightarrow> string \<Rightarrow> sys \<Rightarrow> sys" where
  "Mqtt_ClientCallback v t System_IsSleepTimerEnabled topic payload s =
     (if \<not> MQTT_ENABLE v then s
      else if length payload = 0 then s
      else
        (let receivedString = payload;
             s1 = emit (Log_Printf LOGLEVEL_INFO ''mqttMsgReceived'') s
         in if topic = topicSleepCmnd t
            then (if receivedString = ''OFF'' \<or> receivedString = ''0''
                  then emit System_RequestSleep s1 else s1)
            else if topic = topicRfidCmnd t
            then (if length receivedString \<ge> cardIdStringSize v - 1
                  then emit (xQueueSend_gRfidCardQueue receivedString) s1
                  else emit System_IndicateError s1)
            else if topic = topicLoudnessCmnd t
            then emit (AudioPlayer_VolumeToQueueSender
                         (word_of_int (toNumber_int32 receivedString)) True) s1
            else if topic = topicSleepTimerCmnd t
            then sleep_timer_branch v System_IsSleepTimerEnabled receivedString s1
            else if topic = topicTrackControlCmnd t
            then emit (AudioPlayer_TrackControlToQueueSender (toNumber_uint8 receivedString)) s1
            else if topic = topicLockControlsCmnd t
            then lock_controls_branch receivedString s1
            else if topic = topicRepeatModeCmnd t
            then repeat_mode_branch v receivedString s1
            else if topic = topicLedBrightnessCmnd t
            then emit (Led_SetBrightness (toNumber_uint8 receivedString)) s1
            else emit System_IndicateError
                   (emit (Log_Printf LOGLEVEL_ERROR ''noValidTopic'') s1)))"

section \<open>Tag assignments: \<open>handlePostRFIDRequest\<close> and \<open>tagIdToJSON\<close>\<close>

text \<open>
  Constants of the web module that are declared elsewhere (\<open>stringDelimiter\<close>,
  \<open>backupFile\<close>) or depend on the board (\<open>start_chunk_size\<close>).
\<close>

record web_consts =
  stringDelimiter :: string
  backupFile :: string
  start_chunk_size :: nat

text \<open>
  \<open>strtok\<close>, called until it returns \<open>NULL\<close>: the tokens are the maximal runs of
  characters that are not in the delimiter set. \<open>cur\<close> is the token being read.
\<close>

fun strtok_tokens :: "string \<Rightarrow> string \<Rightarrow> string \<Rightarrow> string list" where
  "strtok_tokens delim cur [] = (if cur = [] then [] else [cur])"
| "strtok_tokens delim cur (c # cs) =
     (if c \<in> set delim
      then (if cur = [] then strtok_tokens delim [] cs else cur # strtok_tokens delim [] cs)
      else strtok_tokens delim (cur @ [c]) cs)"

text \<open>
  \<open>strtoul(token, NULL, 10)\<close> with a 32-bit \<open>unsigned long\<close>: white space is skipped, a
  sign is accepted, the digits are read; no digit gives 0, a value that does not fit gives
  \<open>ULONG_MAX\<close>, a minus sign negates in the unsigned type.
\<close>

definition isspace :: "char \<Rightarrow> bool" where
  "isspace c = ((of_char c :: nat) = 32 \<or> (9 \<le> (of_char c :: nat) \<and> (of_char c :: nat) \<le> 13))"

definition strtoul10 :: "string \<Rightarrow> u32" where
  "strtoul10 str =
     (let s1 = dropWhile isspace str;
          signed = (s1 \<noteq> [] \<and> (hd s1 = CHR ''-'' \<or> hd s1 = CHR ''+''));
          neg = (s1 \<noteq> [] \<and> hd s1 = CHR ''-'');
          n = dec_value (takeWhile is_digit (if signed then tl s1 else s1))
      in if n > 2 ^ 32 - 1 then - 1
         else if neg then - of_nat n
         else of_nat n)"

text \<open>\<open>%u\<close> of \<open>snprintf\<close>: the decimal digits of a number.\<close>

fun dec_string :: "nat \<Rightarrow> string" where
  "dec_string n =
     (if n < 10 then [char_of (48 + n)]
      else dec_string (n div 10) @ [char_of (48 + n mod 10)])"

declare dec_string.simps [simp del]

text \<open>
  The local \<open>char _file[255]\<close>: not written yet, or written by \<open>strncpy(_file, token, 255)\<close>,
  which leaves no terminating zero when the token has 255 characters or more.
\<close>

datatype cbuf = Uninitialised | Unterminated string | Cstring string

definition strncpy255 :: "string \<Rightarrow> cbuf" where
  "strncpy255 token = (if length token < 255 then Cstring token else Unterminated (take 255 token))"

record tag_fields =
  t_file :: cbuf
  t_lastPlayPos :: u32
  t_trackLastPlayed :: u16
  t_mode :: u32

definition initial_fields :: tag_fields where
  "initial_fields = \<lparr>t_file = Uninitialised, t_lastPlayPos = 0, t_trackLastPlayed = 0, t_mode = 1\<rparr>"

text \<open>The \<open>while (token != NULL)\<close> loop, with its 8-bit counter \<open>i\<close>.\<close>

fun token_loop :: "string list \<Rightarrow> u8 \<Rightarrow> tag_fields \<Rightarrow> tag_fields" where
  "token_loop [] i f = f"
| "token_loop (token # rest) i f =
     token_loop rest (i + 1)
       (if i = 1 then f\<lparr>t_file := strncpy255 token\<rparr>
        else if i = 2 then f\<lparr>t_lastPlayPos := strtoul10 token\<rparr>
        else if i = 3 then f\<lparr>t_mode := strtoul10 token\<rparr>
        else if i = 4 then f\<lparr>t_trackLastPlayed := ucast (strtoul10 token)\<rparr>
        else f)"

text \<open>The tag store \<open>gPrefsRfid\<close>: a key-value store of strings.\<close>

type_synonym nvs = "string \<rightharpoonup> string"

definition getString :: "nvs \<Rightarrow> string \<Rightarrow> string \<Rightarrow> string" where
  "getString store key dflt = (case store key of None \<Rightarrow> dflt | Some x \<Rightarrow> x)"

text \<open>\<open>putString\<close> can fail (the store is full, the key is too long): then nothing is stored.\<close>

definition putString :: "bool \<Rightarrow> nvs \<Rightarrow> string \<Rightarrow> string \<Rightarrow> nvs" where
  "putString accepted store key val = (if accepted then store(key \<mapsto> val) else store)"

datatype cfault = UninitialisedRead | UnterminatedRead

text \<open>
  The tokens of the stored string, read by the loop (\<open>decode_fields\<close>), and
  \<open>tagIdToJSON\<close>: the result is the returned flag and the \<open>entry\<close> object; reading
  \<open>_file\<close> as a C string is a fault when it was never written or has no terminator.
\<close>

definition decode_fields :: "web_consts \<Rightarrow> string \<Rightarrow> tag_fields" where
  "decode_fields c s = token_loop (strtok_tokens (stringDelimiter c) [] s) 1 initial_fields"

definition tagIdToJSON :: "web_consts \<Rightarrow> nvs \<Rightarrow> string \<Rightarrow> JsonObject \<Rightarrow> cfault + bool \<times> JsonObject" where
  "tagIdToJSON c store tagId entry =
     (let s = getString store tagId ''-1''
      in if s = ''-1'' then Inr (False, entry)
         else
           (let f = decode_fields c s;
                entry1 = AList.update ''id'' (JString tagId) entry
            in if t_mode f \<ge> 100
               then Inr (True, AList.update ''modId'' (JNumber (unat (t_mode f))) entry1)
               else (case t_file f of
                       Uninitialised \<Rightarrow> Inl UninitialisedRead
                     | Unterminated x \<Rightarrow> Inl UnterminatedRead
                     | Cstring file \<Rightarrow>
                         Inr (True,
                              AList.update ''trackLastPlayed'' (JNumber (unat (t_trackLastPlayed f)))
                                (AList.update ''lastPlayPos'' (JNumber (unat (t_lastPlayPos f)))
                                   (AList.update ''playMode'' (JNumber (unat (t_mode f)))
                                      (AList.update ''fileOrUrl'' (JString file) entry1)))))))"

text \<open>
  The body of a POST to \<open>/rfid\<close> as the handler reads it, after the conversions of the JSON
  library: the strings \<open>id\<close> and \<open>fileOrUrl\<close>, whether \<open>modId\<close> is present, and the members
  \<open>modId\<close> and \<open>playMode\<close> as \<open>uint8_t\<close>.
\<close>

record rfid_post =
  json_id :: string
  json_fileOrUrl :: string
  json_containsKey_modId :: bool
  json_modId :: u8
  json_playMode :: u8

record web =
  gPrefsRfid :: nvs
  web_trace :: "event list"

definition web_emit :: "event \<Rightarrow> web \<Rightarrow> web" where
  "web_emit e s = s\<lparr>web_trace := web_trace s @ [e]\<rparr>"

text \<open>
  \<open>snprintf(rfidString, 275, "%s%s%s0%s%u%s0", stringDelimiter, fileOrUrl, stringDelimiter,
  stringDelimiter, mode, stringDelimiter)\<close>: at most 274 characters are kept.
\<close>

definition rfidString_of :: "web_consts \<Rightarrow> string \<Rightarrow> u8 \<Rightarrow> string" where
  "rfidString_of c fileOrUrl m =
     take 274 (stringDelimiter c @ fileOrUrl @ stringDelimiter c @ ''0'' @ stringDelimiter c
               @ dec_string (unat m) @ stringDelimiter c @ ''0'')"

definition handlePostRFIDRequest :: "web_consts \<Rightarrow> bool \<Rightarrow> rfid_post \<Rightarrow> web \<Rightarrow> cfault + web" where
  "handlePostRFIDRequest c accepted json s =
     (let tagId = json_id json
      in if tagId = []
         then Inr (web_emit (request_send_text 500 ''/rfid (POST): Missing tag id'')
                     (web_emit (Log_Println ''/rfid (POST): Missing tag id'' LOGLEVEL_ERROR) s))
         else
           (let fileOrUrl = (if json_fileOrUrl json = [] then ''0'' else json_fileOrUrl json);
                playModeOrModId = (if json_containsKey_modId json then json_modId json
                                   else json_playMode json)
            in if playModeOrModId \<le> 0
               then Inr (web_emit (request_send_text 500 ''/rfid (POST): Invalid playMode or modId'')
                           (web_emit (Log_Println ''/rfid (POST): Invalid playMode or modId''
                                        LOGLEVEL_ERROR) s))
               else
                 (let rfidString = rfidString_of c fileOrUrl playModeOrModId;
                      s1 = s\<lparr>gPrefsRfid := putString accepted (gPrefsRfid s) tagId rfidString\<rparr>
                  in if getString (gPrefsRfid s1) tagId ''-1'' \<noteq> rfidString
                     then Inr (web_emit (request_send_text 500
                                           ''/rfid (POST): cannot save assignment to NVS'') s1)
                     else
                       (let s2 = web_emit (Web_DumpNvsToSd ''rfidTags'' (backupFile c)) s1
                        in case tagIdToJSON c (gPrefsRfid s2) tagId [] of
                             Inl e \<Rightarrow> Inl e
                           | Inr (found, obj) \<Rightarrow> Inr (web_emit (request_send_json obj) s2)))))"

section \<open>File upload: the double buffer, the upload handler and the storage task\<close>



text \<open>
  The module's globals, the request's \<open>_tempObject\<close>, the locals of the storage task and
  the environment.
  \<^item> \<open>buffer i\<close> is the pointer \<open>buffer[i]\<close>: \<open>None\<close> is the null pointer, \<open>Some m\<close> a
    block of \<open>length m\<close> bytes with content \<open>m\<close>.
  \<^item> \<open>heap\<close> lists what the next calls of \<open>heap_caps_aligned_alloc\<close> return: \<open>None\<close> is
    a failed allocation, \<open>Some g\<close> a block whose first bytes are \<open>g\<close>; when the list
    is used up, allocations fail.
  \<^item> \<open>sd_writes\<close> lists what the next calls of \<open>uploadFile.write\<close> do: \<open>None\<close> writes
    all bytes, \<open>Some k\<close> at most \<open>k\<close> of them; when the list is used up, writes are
    complete.
  \<^item> \<open>uploadFile\<close> is the sequence of byte blocks written to the file so far.
  \<^item> \<open>fileStorageTask\<close> says whether \<open>fileStorageTaskHandle\<close> refers to a storage task
    that is running: it is set when the handler creates the task and cleared when the task
    deletes itself.
\<close>

record up =
  buffer :: "nat \<Rightarrow> u8 list option"
  chunk_size :: nat
  size_in_buffer :: "nat \<Rightarrow> nat"
  buffer_full :: "nat \<Rightarrow> bool"
  index_buffer_write :: nat
  index_buffer_read :: nat
  tempObject :: "nat option"
  uploadFile :: "u8 list list"
  bytesOk :: nat
  bytesNok :: nat
  chunkCount :: nat
  heap :: "u8 list option list"
  sd_writes :: "nat option list"
  fileStorageTask :: bool
  up_trace :: "event list"

definition up_emit :: "event \<Rightarrow> up \<Rightarrow> up" where
  "up_emit e s = s\<lparr>up_trace := up_trace s @ [e]\<rparr>"



text \<open>A fresh block of \<open>memSize\<close> bytes whose content starts with \<open>g\<close>.\<close>

definition block :: "nat \<Rightarrow> u8 list \<Rightarrow> u8 list" where
  "block memSize g = take memSize (g @ replicate memSize 0)"








subsection \<open>The storage task\<close>

text \<open>
  The storage task runs on its own core beside the upload handler. The model runs the two
  in turns: the task's start at its creation, runs of its loop body at the points where the
  handler waits for a buffer, and its end when the handler waits for the semaphore. The
  branch that gives the upload up (the notification \<open>2\<close> after a disconnect, or 20
  seconds without a full buffer) is not taken in these runs.
\<close>









subsection \<open>The upload handler\<close>












subsection \<open>The bytes in flight\<close>

text \<open>
  What a statement about a running upload talks about: the bytes that a buffer holds, the
  full buffers in the order in which the storage task will write them, and the bytes of the
  buffer that the handler is filling. With the blocks in the file they make up the bytes
  received so far, in the order received.
\<close>

definition content :: "up \<Rightarrow> nat \<Rightarrow> u8 list" where
  "content s i = (case buffer s i of None \<Rightarrow> [] | Some m \<Rightarrow> take (size_in_buffer s i) m)"




text \<open>
  The counters of the storage task agree with the file: no block was refused, the bytes
  and the blocks are counted (in 32 bits).
\<close>

definition counted :: "up \<Rightarrow> bool" where
  "counted s \<longleftrightarrow>
     bytesOk s = length (concat (uploadFile s)) mod 2 ^ 32
     \<and> bytesNok s = 0
     \<and> chunkCount s = length (uploadFile s) mod 2 ^ 32"





definition drainable :: "up \<Rightarrow> u8 list list" where
  "drainable s =
     (let r = index_buffer_read s
      in if buffer_full s r
         then content s r # (if buffer_full s (1 - r) then [content s (1 - r)] else [])
         else [])"

section \<open>Example configurations\<close>

text \<open>
  Concrete values for the parameters, used where a statement is evaluated: the command,
  play-mode and repeat-mode numbers and the topics of a default build, a playlist of two
  tracks with the second one playing, and an engine in the middle of a file.
\<close>

definition example_values :: values_h where
  "example_values =
     \<lparr>STOP = 1, PAUSEPLAY = 3, NEXTTRACK = 4, PREVIOUSTRACK = 5, FIRSTTRACK = 6, LASTTRACK = 7,
      NO_PLAYLIST = 0, WEBSTREAM = 8, LOCAL_M3U = 11,
      NO_REPEAT = 0, TRACK = 1, PLAYLIST = 2, TRACK_N_PLAYLIST = 3,
      MQTT_ENABLE = True, trackNumberBits = 9, playUntilBits = 6, cardIdStringSize = 13,
      AudioPlayer_GetRepeatMode =
        (\<lambda>s. if repeatPlaylist s then (if repeatCurrentTrack s then 3 else 2)
             else (if repeatCurrentTrack s then 1 else 0))\<rparr>"

definition example_topics :: mqtt_topics where
  "example_topics =
     \<lparr>topicSleepCmnd = ''Cmnd/ESPuino/Sleep'', topicRfidCmnd = ''Cmnd/ESPuino/Rfid'',
      topicLoudnessCmnd = ''Cmnd/ESPuino/Loudness'',
      topicSleepTimerCmnd = ''Cmnd/ESPuino/SleepTimer'',
      topicTrackControlCmnd = ''Cmnd/ESPuino/TrackControl'',
      topicLockControlsCmnd = ''Cmnd/ESPuino/LockControls'',
      topicRepeatModeCmnd = ''Cmnd/ESPuino/RepeatMode'',
      topicLedBrightnessCmnd = ''Cmnd/ESPuino/LedBrightness''\<rparr>"

definition example_audio :: Audio where
  "example_audio =
     \<lparr>getFilePos = 5000, inBufferFilled = 1000, getAudioCurrentTime = 7, connecttoFS = True\<rparr>"

definition example_sys :: sys where
  "example_sys =
     \<lparr>playMode = 3, playlist = Some [''/a/1.mp3'', ''/a/2.mp3''], pausePlay = False,
      playlistFinished = False, trackFinished = False, repeatCurrentTrack = False,
      repeatPlaylist = False, currentTrackNumber = 1, saveLastPlayPosition = True,
      playRfidTag = ''1234'', sleepAfterPlaylist = False, sleepAfterCurrentTrack = False,
      playUntilTrackNumber = 0, trace = []\<rparr>"

definition example_consts :: web_consts where
  "example_consts =
     \<lparr>stringDelimiter = ''#'', backupFile = ''/backup.txt'', start_chunk_size = 4096\<rparr>"

definition example_web :: web where
  "example_web = \<lparr>gPrefsRfid = Map.empty, web_trace = []\<rparr>"

definition example_post :: rfid_post where
  "example_post =
     \<lparr>json_id = ''1234'', json_fileOrUrl = ''/music/a.mp3'', json_containsKey_modId = False,
      json_modId = 0, json_playMode = 1\<rparr>"





text \<open>
  An assignment accepted by the store, followed by a lookup of the same tag; and the
  object that a lookup builds for a file assignment.
\<close>

definition assign_then_lookup :: "web_consts \<Rightarrow> rfid_post \<Rightarrow> web \<Rightarrow> cfault + bool \<times> JsonObject" where
  "assign_then_lookup c json s =
     (case handlePostRFIDRequest c True json s of
        Inl e \<Rightarrow> Inl e
      | Inr s' \<Rightarrow> tagIdToJSON c (gPrefsRfid s') (json_id json) [])"

definition file_entry :: "string \<Rightarrow> string \<Rightarrow> nat \<Rightarrow> nat \<Rightarrow> nat \<Rightarrow> JsonObject" where
  "file_entry tagId file pm pos tr =
     [(''id'', JString tagId), (''fileOrUrl'', JString file), (''playMode'', JNumber pm),
      (''lastPlayPos'', JNumber pos), (''trackLastPlayed'', JNumber tr)]"

text \<open>The trace a command leaves, if it returns.\<close>

definition trace_of :: "fault + sys \<Rightarrow> event list option" where
  "trace_of r = (case r of Inl e \<Rightarrow> None | Inr s \<Rightarrow> Some (trace s))"

text \<open>The command topics that the callback compares before the LED-brightness topic.\<close>

definition earlier_topics :: "mqtt_topics \<Rightarrow> string list" where
  "earlier_topics t =
     [topicSleepCmnd t, topicRfidCmnd t, topicLoudnessCmnd t, topicSleepTimerCmnd t,
      topicTrackControlCmnd t, topicLockControlsCmnd t, topicRepeatModeCmnd t]"

section \<open>Properties of track control\<close>

lemma labels_example: "track_labels_ok example_values"
  by (simp add: track_labels_ok_def example_values_def)

lemma trace_emit [simp]: "trace (emit e s) = trace s @ [e]"
  by (simp add: emit_def)

lemma cur_emit [simp]: "currentTrackNumber (emit e s) = currentTrackNumber s"
  by (simp add: emit_def)

lemma playMode_emit [simp]: "playMode (emit e s) = playMode s"
  by (simp add: emit_def)

lemma prefix_cur [simp]:
  "currentTrackNumber (end_track_repeat v (resume_if_paused s)) = currentTrackNumber s"
  by (simp add: end_track_repeat_def resume_if_paused_def Let_def)

lemma prefix_playMode [simp]:
  "playMode (end_track_repeat v (resume_if_paused s)) = playMode s"
  by (simp add: end_track_repeat_def resume_if_paused_def Let_def)

lemma prefix_playlist [simp]:
  "playlist (end_track_repeat v (resume_if_paused s)) = playlist s"
  by (simp add: end_track_repeat_def resume_if_paused_def Let_def emit_def)

lemma prefix_repeatPlaylist [simp]:
  "repeatPlaylist (end_track_repeat v (resume_if_paused s)) = repeatPlaylist s"
  by (simp add: end_track_repeat_def resume_if_paused_def Let_def emit_def)

lemma prefix_trace:
  "\<exists>es. trace (end_track_repeat v (resume_if_paused s)) = trace s @ es"
  by (simp add: end_track_repeat_def resume_if_paused_def Let_def)

text \<open>
  C10. Called with a null engine pointer, \<open>executeTrackCommand\<close> returns at once, whatever
  the command: the shared playback state (and the trace of calls) is the one it was given,
  so that not even STOP is applied.
\<close>

theorem executeTrackCommand_null_audio:
  "executeTrackCommand v None cmd s = Inr s"
  by (simp add: executeTrackCommand_def)

text \<open>
  C2. When the current track is the last one of the playlist, NEXTTRACK without
  playlist-repeat returns with the track index unchanged and with the error indication as
  its last call; with playlist-repeat it returns with the track index 0.
\<close>

theorem nexttrack_at_last_index:
  assumes "track_labels_ok v" and "playlist s = Some pl"
    and "currentTrackNumber s + 1 = length pl"
  shows "(\<not> repeatPlaylist s \<longrightarrow>
            (\<exists>s' es. executeTrackCommand v (Some a) (NEXTTRACK v) s = Inr s'
               \<and> currentTrackNumber s' = currentTrackNumber s
               \<and> trace s' = trace s @ es @ [System_IndicateError]))
       \<and> (repeatPlaylist s \<longrightarrow>
            (\<exists>s'. executeTrackCommand v (Some a) (NEXTTRACK v) s = Inr s'
               \<and> currentTrackNumber s' = 0))"
proof -
  have sel: "executeTrackCommand v (Some a) (NEXTTRACK v) s = case_NEXTTRACK v s"
    using assms(1) by (auto simp: executeTrackCommand_def track_labels_ok_def)
  obtain es where es: "trace (end_track_repeat v (resume_if_paused s)) = trace s @ es"
    using prefix_trace by blast
  have pos: "pl \<noteq> []" using assms(3) by auto
  show ?thesis
    unfolding sel case_NEXTTRACK_def Let_def
    using assms(2,3) es pos
    by (auto simp: save_track_start_def call_NvsRfidWriteWrapper_def log_and_stop_def
        Let_def emit_def)
qed

theorem nexttrack_at_last_index_witness:
  "(\<exists>s' es. executeTrackCommand example_values (Some example_audio) 4 example_sys = Inr s'
       \<and> currentTrackNumber s' = 1 \<and> trace s' = es @ [System_IndicateError])
   \<and> (\<exists>s'. executeTrackCommand example_values (Some example_audio) 4
               (example_sys\<lparr>repeatPlaylist := True\<rparr>) = Inr s'
         \<and> currentTrackNumber s' = 0)"
  using nexttrack_at_last_index [of example_values example_sys "[''/a/1.mp3'', ''/a/2.mp3'']"
       example_audio]
    nexttrack_at_last_index [of example_values "example_sys\<lparr>repeatPlaylist := True\<rparr>"
       "[''/a/1.mp3'', ''/a/2.mp3'']" example_audio]
  by (simp add: labels_example) (simp add: example_values_def example_sys_def)

text \<open>
  C7. In webstream play-mode PREVIOUSTRACK returns with the track index unchanged and with
  the error indication as its last call.
\<close>

theorem previoustrack_webstream:
  assumes "track_labels_ok v" and "playMode s = WEBSTREAM v"
  shows "\<exists>s' es. executeTrackCommand v (Some a) (PREVIOUSTRACK v) s = Inr s'
           \<and> currentTrackNumber s' = currentTrackNumber s
           \<and> trace s' = trace s @ es @ [System_IndicateError]"
proof -
  have sel: "executeTrackCommand v (Some a) (PREVIOUSTRACK v) s = case_PREVIOUSTRACK v a s"
    using assms(1) by (auto simp: executeTrackCommand_def track_labels_ok_def)
  obtain es where es: "trace (end_track_repeat v (resume_if_paused s)) = trace s @ es"
    using prefix_trace by blast
  show ?thesis
    unfolding sel case_PREVIOUSTRACK_def Let_def
    using assms(2) es by simp
qed

theorem previoustrack_webstream_witness:
  "\<exists>s' es. executeTrackCommand example_values (Some example_audio) 5
             (example_sys\<lparr>playMode := 8\<rparr>) = Inr s'
           \<and> currentTrackNumber s' = 1
           \<and> trace s' = es @ [System_IndicateError]"
  using previoustrack_webstream [of example_values "example_sys\<lparr>playMode := 8\<rparr>" example_audio]
  by (simp add: labels_example) (simp add: example_values_def example_sys_def)

text \<open>
  C3, as the code has it. The play position is written when PAUSEPLAY finds the player
  playing (pause flag clear) with position saving on, that is when it pauses: the current
  track reference and the offset (file position minus bytes still buffered, in 32 bits)
  go to the store wrapper while the pause flag is still clear, then the flag is set and the
  track info is broadcast. When PAUSEPLAY finds the player paused it resumes without
  writing a position. Every PAUSEPLAY that returns has flipped the flag and ends with the
  broadcast of the track info.
\<close>

theorem pauseplay_saves_when_pausing:
  assumes "track_labels_ok v"
  shows "(saveLastPlayPosition s \<and> \<not> pausePlay s \<and> playlist s = Some pl
            \<and> currentTrackNumber s < length pl \<longrightarrow>
            (\<exists>s1 es. pauseplay_save a s = Inr s1
               \<and> pausePlay s1 = pausePlay s
               \<and> trace s1 = trace s @ es @
                    [AudioPlayer_NvsRfidWriteWrapper (playRfidTag s) (pl ! currentTrackNumber s)
                       (getFilePos a - inBufferFilled a) (playMode s)
                       (currentTrackNumber s) (length pl)]
               \<and> executeTrackCommand v (Some a) (PAUSEPLAY v) s =
                    Inr (emit (Web_SendWebsocketData 0 ''TrackInfo'') (s1\<lparr>pausePlay := True\<rparr>))))
       \<and> (pausePlay s \<longrightarrow>
            executeTrackCommand v (Some a) (PAUSEPLAY v) s =
              Inr (s\<lparr>pausePlay := False,
                     trace := trace s @ [Audio_pauseResume,
                                Log_Println ''cmndResumeFromPause'' LOGLEVEL_INFO,
                                Web_SendWebsocketData 0 ''TrackInfo'']\<rparr>))
       \<and> (\<forall>s'. executeTrackCommand v (Some a) (PAUSEPLAY v) s = Inr s' \<longrightarrow>
            pausePlay s' = (\<not> pausePlay s)
            \<and> (\<exists>es. trace s' = trace s @ es @ [Web_SendWebsocketData 0 ''TrackInfo'']))"
proof -
  have sel: "executeTrackCommand v (Some a) (PAUSEPLAY v) s = case_PAUSEPLAY a s"
    using assms(1) by (auto simp: executeTrackCommand_def track_labels_ok_def)
  show ?thesis
    unfolding sel
    by (auto simp: case_PAUSEPLAY_def pauseplay_save_def call_NvsRfidWriteWrapper_def
        Let_def emit_def split: option.splits if_splits)
qed

theorem pauseplay_saves_when_pausing_witness:
  "track_labels_ok example_values
   \<and> trace_of (executeTrackCommand example_values (Some example_audio) 3 example_sys)
     = Some [Audio_pauseResume, Log_Println ''cmndPause'' LOGLEVEL_INFO,
             Log_Printf LOGLEVEL_INFO ''trackPausedAtPos'',
             AudioPlayer_NvsRfidWriteWrapper ''1234'' ''/a/2.mp3'' 4000 3 1 2,
             Web_SendWebsocketData 0 ''TrackInfo'']"
proof -
  have h: "track_labels_ok example_values" by (rule labels_example)
  have c: "saveLastPlayPosition example_sys \<and> \<not> pausePlay example_sys
      \<and> playlist example_sys = Some [''/a/1.mp3'', ''/a/2.mp3'']
      \<and> currentTrackNumber example_sys < length [''/a/1.mp3'', ''/a/2.mp3'']"
    by (simp add: example_sys_def)
  have ps: "pauseplay_save example_audio example_sys =
      Inr (example_sys\<lparr>trace := [Audio_pauseResume, Log_Println ''cmndPause'' LOGLEVEL_INFO,
             Log_Printf LOGLEVEL_INFO ''trackPausedAtPos'',
             AudioPlayer_NvsRfidWriteWrapper ''1234'' ''/a/2.mp3'' 4000 3 1 2]\<rparr>)"
    by (simp add: pauseplay_save_def call_NvsRfidWriteWrapper_def Let_def emit_def
        example_sys_def example_audio_def)
  have pp: "PAUSEPLAY example_values = 3" by (simp add: example_values_def)
  from pauseplay_saves_when_pausing [OF h, of example_sys "[''/a/1.mp3'', ''/a/2.mp3'']"
      example_audio] c
  obtain s1 where s1: "pauseplay_save example_audio example_sys = Inr s1"
    "executeTrackCommand example_values (Some example_audio) (PAUSEPLAY example_values) example_sys
       = Inr (emit (Web_SendWebsocketData 0 ''TrackInfo'') (s1\<lparr>pausePlay := True\<rparr>))"
    by blast
  from s1(1) ps have "s1 = example_sys\<lparr>trace := [Audio_pauseResume,
             Log_Println ''cmndPause'' LOGLEVEL_INFO,
             Log_Printf LOGLEVEL_INFO ''trackPausedAtPos'',
             AudioPlayer_NvsRfidWriteWrapper ''1234'' ''/a/2.mp3'' 4000 3 1 2]\<rparr>"
    by simp
  with s1(2) h show ?thesis
    by (simp add: pp trace_of_def)
qed

text \<open>
  The claim C3 as it is worded fails: resuming from pause with position saving on writes
  no position. The trace of the command is the engine call, the log line and the broadcast.
\<close>

theorem pauseplay_resume_counterexample:
  "trace_of (executeTrackCommand example_values (Some example_audio) 3
               (example_sys\<lparr>pausePlay := True\<rparr>))
   = Some [Audio_pauseResume, Log_Println ''cmndResumeFromPause'' LOGLEVEL_INFO,
           Web_SendWebsocketData 0 ''TrackInfo'']"
  by (simp add: trace_of_def executeTrackCommand_def case_PAUSEPLAY_def pauseplay_save_def
      example_values_def example_sys_def Let_def emit_def)

section \<open>Properties of the message-bus callback\<close>

text \<open>
  C9. With a payload of length zero the callback returns the state it was given, whatever
  the topic: no field of the playback state changes and no call (queue, publish, error
  indication, log) is made.
\<close>

theorem Mqtt_ClientCallback_empty_payload:
  "Mqtt_ClientCallback v t sleepTimerEnabled topic [] s = s"
  by (simp add: Mqtt_ClientCallback_def)

lemma quiet_sleep:
  "\<exists>es. trace (sleep_timer_branch v en p s) = trace s @ es
        \<and> Log_Println ''noPlaylistNotAllowedMqtt'' LOGLEVEL_ERROR \<notin> set es"
  by (simp add: sleep_timer_branch_def split: option.split)

lemma quiet_lock:
  "\<exists>es. trace (lock_controls_branch p s) = trace s @ es
        \<and> Log_Println ''noPlaylistNotAllowedMqtt'' LOGLEVEL_ERROR \<notin> set es"
  by (simp add: lock_controls_branch_def)

lemma quiet_repeat:
  "\<exists>es. trace (repeat_mode_branch v p s) = trace s @ es
        \<and> Log_Println ''noPlaylistNotAllowedMqtt'' LOGLEVEL_ERROR \<notin> set es"
  by (simp add: repeat_mode_branch_def set_repeat_def Let_def)

lemma quiet_after_emit:
  assumes "\<exists>es. trace (f (emit e s)) = trace (emit e s) @ es \<and> x \<notin> set es" and "e \<noteq> x"
  shows "\<exists>es. trace (f (emit e s)) = trace s @ es \<and> x \<notin> set es"
proof -
  obtain es where es: "trace (f (emit e s)) = trace (emit e s) @ es" "x \<notin> set es"
    using assms(1) by blast
  then have "trace (f (emit e s)) = trace s @ (e # es) \<and> x \<notin> set (e # es)"
    using assms(2) by simp
  then show ?thesis by blast
qed

text \<open>
  C8. The branch of the repeat-mode handler behind the second test
  \<open>playMode == NO_PLAYLIST\<close> is the only place that logs \<open>noPlaylistNotAllowedMqtt\<close>, and no
  run of the callback makes that call: whatever topic, payload and playback state, the
  calls the callback adds to the trace do not contain it.
\<close>

theorem repeat_mode_inner_branch_unreachable:
  "\<exists>es. trace (Mqtt_ClientCallback v t sleepTimerEnabled topic payload s) = trace s @ es
        \<and> Log_Println ''noPlaylistNotAllowedMqtt'' LOGLEVEL_ERROR \<notin> set es"
proof -
  let ?x = "Log_Println ''noPlaylistNotAllowedMqtt'' LOGLEVEL_ERROR"
  let ?e = "Log_Printf LOGLEVEL_INFO ''mqttMsgReceived''"
  have ne: "?e \<noteq> ?x" by simp
  have a: "\<exists>es. trace (sleep_timer_branch v sleepTimerEnabled p (emit ?e s)) = trace s @ es
             \<and> ?x \<notin> set es" for p
    by (rule quiet_after_emit [where f = "sleep_timer_branch v sleepTimerEnabled p",
          OF quiet_sleep ne])
  have b: "\<exists>es. trace (lock_controls_branch p (emit ?e s)) = trace s @ es \<and> ?x \<notin> set es" for p
    by (rule quiet_after_emit [where f = "lock_controls_branch p", OF quiet_lock ne])
  have c: "\<exists>es. trace (repeat_mode_branch v p (emit ?e s)) = trace s @ es \<and> ?x \<notin> set es" for p
    by (rule quiet_after_emit [where f = "repeat_mode_branch v p", OF quiet_repeat ne])
  show ?thesis
    unfolding Mqtt_ClientCallback_def Let_def
    by (simp add: a b c)
qed

text \<open>
  C6. A payload whose leading digits denote a number above 255 is decoded as 255 by the
  8-bit decoder, and a payload that does not start with a digit as 0; the payload
  \<open>99999999999\<close> gives 255. On the LED-brightness topic (a topic that none of the
  comparisons before it matches) a non-empty payload sets the brightness to the decoded
  value.
\<close>

theorem led_brightness_clamps:
  "(dec_value (takeWhile is_digit payload) > 255 \<longrightarrow> toNumber_uint8 payload = 255)
   \<and> (takeWhile is_digit payload = [] \<longrightarrow> toNumber_uint8 payload = 0)
   \<and> toNumber_uint8 ''99999999999'' = 255
   \<and> (MQTT_ENABLE v \<and> payload \<noteq> [] \<and> topicLedBrightnessCmnd t \<notin> set (earlier_topics t) \<longrightarrow>
        Mqtt_ClientCallback v t sleepTimerEnabled (topicLedBrightnessCmnd t) payload s =
          emit (Led_SetBrightness (toNumber_uint8 payload))
            (emit (Log_Printf LOGLEVEL_INFO ''mqttMsgReceived'') s))"
proof -
  have a: "dec_value (takeWhile is_digit payload) > 255 \<longrightarrow> toNumber_uint8 payload = 255"
    by (auto simp: toNumber_uint8_def from_chars_unsigned_def Let_def dec_value_def)
  have b: "takeWhile is_digit payload = [] \<longrightarrow> toNumber_uint8 payload = 0"
    by (simp add: toNumber_uint8_def from_chars_unsigned_def)
  have c: "toNumber_uint8 ''99999999999'' = 255"
    by (simp add: toNumber_uint8_def from_chars_unsigned_def is_digit_def dec_value_def
        digit_val_def)
  have d: "MQTT_ENABLE v \<and> payload \<noteq> [] \<and> topicLedBrightnessCmnd t \<notin> set (earlier_topics t) \<longrightarrow>
        Mqtt_ClientCallback v t sleepTimerEnabled (topicLedBrightnessCmnd t) payload s =
          emit (Led_SetBrightness (toNumber_uint8 payload))
            (emit (Log_Printf LOGLEVEL_INFO ''mqttMsgReceived'') s)"
    by (auto simp: Mqtt_ClientCallback_def earlier_topics_def Let_def)
  show ?thesis using a b c d by blast
qed

theorem led_brightness_clamps_witness:
  "toNumber_uint8 ''300'' = 255 \<and> toNumber_uint8 ''dim'' = 0
   \<and> trace (Mqtt_ClientCallback example_values example_topics False ''Cmnd/ESPuino/LedBrightness''
        ''99999999999'' example_sys)
     = [Log_Printf LOGLEVEL_INFO ''mqttMsgReceived'', Led_SetBrightness 255]"
proof -
  have h1: "dec_value (takeWhile is_digit ''300'') > 255"
    by (simp add: is_digit_def dec_value_def digit_val_def)
  have h2: "takeWhile is_digit ''dim'' = []"
    by (simp add: is_digit_def)
  have h3: "MQTT_ENABLE example_values \<and> ''99999999999'' \<noteq> []
      \<and> topicLedBrightnessCmnd example_topics \<notin> set (earlier_topics example_topics)"
    by (simp add: example_values_def example_topics_def earlier_topics_def)
  have t: "topicLedBrightnessCmnd example_topics = ''Cmnd/ESPuino/LedBrightness''"
    by (simp add: example_topics_def)
  show ?thesis
    using h1 h2 h3
      led_brightness_clamps [of "''300''"]
      led_brightness_clamps [of "''dim''"]
      led_brightness_clamps [of "''99999999999''" example_values example_topics False example_sys]
    by (simp add: t example_sys_def)
qed

section \<open>Properties of the buffer allocation\<close>





















section \<open>Properties of the upload\<close>


lemma mod_count: "(a mod 2 ^ 32 + b) mod 2 ^ 32 = (a + b) mod (2 ^ 32 :: nat)"
  by (simp add: mod_add_left_eq)































lemma emit_fields [simp]:
  "buffer (up_emit e s) = buffer s"
  "size_in_buffer (up_emit e s) = size_in_buffer s"
  "buffer_full (up_emit e s) = buffer_full s"
  "index_buffer_write (up_emit e s) = index_buffer_write s"
  "index_buffer_read (up_emit e s) = index_buffer_read s"
  "chunk_size (up_emit e s) = chunk_size s"
  "uploadFile (up_emit e s) = uploadFile s"
  "sd_writes (up_emit e s) = sd_writes s"
  "bytesOk (up_emit e s) = bytesOk s"
  "bytesNok (up_emit e s) = bytesNok s"
  "chunkCount (up_emit e s) = chunkCount s"
  "heap (up_emit e s) = heap s"
  "tempObject (up_emit e s) = tempObject s"
  "fileStorageTask (up_emit e s) = fileStorageTask s"
  by (simp_all add: up_emit_def)

lemma emit_content [simp]: "content (up_emit e s) i = content s i"
  by (simp add: content_def cong: option.case_cong)

lemma emit_counted [simp]: "counted (up_emit e s) = counted s"
  by (simp add: counted_def)

lemma task_counted [simp]: "counted (s\<lparr>fileStorageTask := b\<rparr>) = counted s"
  by (simp add: counted_def)


lemma emit_drainable [simp]: "drainable (up_emit e s) = drainable s"
  by (simp add: drainable_def Let_def)




lemma length_block [simp]: "length (block n g) = n"
  by (simp add: block_def)



















section \<open>Properties of the tag assignments\<close>

lemma tok_acc:
  "\<forall>c\<in>set w. c \<notin> set delim \<Longrightarrow>
     strtok_tokens delim cur (w @ rest) = strtok_tokens delim (cur @ w) rest"
  by (induction w arbitrary: cur) auto

lemma tok_word:
  assumes "\<forall>c\<in>set w. c \<notin> set delim" "w \<noteq> []" "d \<in> set delim"
  shows "strtok_tokens delim [] (w @ d # rest) = w # strtok_tokens delim [] rest"
  using tok_acc [OF assms(1), of "[]" "d # rest"] assms(2,3) by simp

lemma tok_last:
  assumes "\<forall>c\<in>set w. c \<notin> set delim" "w \<noteq> []"
  shows "strtok_tokens delim [] w = [w]"
  using tok_acc [OF assms(1), of "[]" "[]"] assms(2) by simp

lemma tokens_of_record:
  assumes "d \<notin> set f" "f \<noteq> []" "d \<notin> set m" "m \<noteq> []" "d \<noteq> CHR ''0''"
  shows "strtok_tokens [d] [] ([d] @ f @ [d] @ ''0'' @ [d] @ m @ [d] @ ''0'') = [f, ''0'', m, ''0'']"
proof -
  have a: "strtok_tokens [d] [] ''0'' = [''0'']"
    using assms(5) by simp
  have b: "strtok_tokens [d] [] (m @ d # ''0'') = m # [''0'']"
    using tok_word [of m "[d]" d "''0''"] assms(3,4) a by auto
  have c: "strtok_tokens [d] [] (''0'' @ d # m @ d # ''0'') = ''0'' # m # [''0'']"
    using tok_word [of "''0''" "[d]" d "m @ d # ''0''"] assms(5) b by auto
  have e: "strtok_tokens [d] [] (f @ d # ''0'' @ d # m @ d # ''0'') = f # ''0'' # m # [''0'']"
    using tok_word [of f "[d]" d "''0'' @ d # m @ d # ''0''"] assms(1,2) c by auto
  show ?thesis using e by simp
qed

lemma dec_value_snoc: "dec_value (xs @ [c]) = 10 * dec_value xs + digit_val c"
  by (simp add: dec_value_def)

lemma digit_char: "k < 10 \<Longrightarrow> is_digit (char_of (48 + k)) \<and> digit_val (char_of (48 + k)) = k"
  by (simp add: is_digit_def digit_val_def)

lemma dec_string_digits: "\<forall>c\<in>set (dec_string n). is_digit c"
proof (induction n rule: dec_string.induct)
  case (1 n)
  show ?case
  proof (cases "n < 10")
    case True
    then show ?thesis using digit_char [of n] by (subst dec_string.simps) simp
  next
    case False
    have "n mod 10 < 10" by simp
    then show ?thesis
      using False "1.IH" digit_char [of "n mod 10"] by (subst dec_string.simps) simp
  qed
qed

lemma dec_string_value: "dec_value (dec_string n) = n"
proof (induction n rule: dec_string.induct)
  case (1 n)
  show ?case
  proof (cases "n < 10")
    case True
    then show ?thesis using digit_char [of n]
      by (subst dec_string.simps) (simp add: dec_value_def)
  next
    case False
    have "n mod 10 < 10" by simp
    then show ?thesis
      using False "1.IH" digit_char [of "n mod 10"]
      by (subst dec_string.simps) (simp add: dec_value_snoc)
  qed
qed

lemma dec_string_nonempty: "dec_string n \<noteq> []"
  by (subst dec_string.simps) simp

lemma digit_not_space: "is_digit c \<Longrightarrow> \<not> isspace c \<and> c \<noteq> CHR ''-'' \<and> c \<noteq> CHR ''+''"
  by (auto simp: is_digit_def isspace_def)

lemma strtoul10_digits:
  assumes "\<forall>c\<in>set ds. is_digit c" "ds \<noteq> []" "dec_value ds < 2 ^ 32"
  shows "strtoul10 ds = of_nat (dec_value ds)"
proof -
  obtain x xs where ds: "ds = x # xs" using assms(2) by (cases ds) auto
  have x: "is_digit x" using assms(1) ds by simp
  have tw: "takeWhile is_digit ds = ds" using assms(1) by (simp add: takeWhile_eq_all_conv)
  have dw: "dropWhile isspace ds = ds" using digit_not_space [OF x] ds by simp
  have hd: "hd ds \<noteq> CHR ''-''" "hd ds \<noteq> CHR ''+''" using digit_not_space [OF x] ds by simp_all
  have le: "\<not> dec_value ds > 2 ^ 32 - 1" using assms(3) by simp
  show ?thesis
    unfolding strtoul10_def dw Let_def
    using hd le by (simp add: tw)
qed

lemma strtoul10_dec_string: "n < 2 ^ 32 \<Longrightarrow> strtoul10 (dec_string n) = of_nat n"
  using strtoul10_digits [of "dec_string n"] dec_string_digits [of n] dec_string_nonempty [of n]
  by (simp add: dec_string_value)

lemma strtoul10_zero: "strtoul10 ''0'' = 0"
  by (simp add: strtoul10_def isspace_def is_digit_def dec_value_def digit_val_def)

lemma token_loop_record:
  "token_loop [f, ''0'', m, ''0''] 1 initial_fields =
     \<lparr>t_file = strncpy255 f, t_lastPlayPos = 0, t_trackLastPlayed = 0, t_mode = strtoul10 m\<rparr>"
  by (simp add: initial_fields_def strtoul10_zero)

lemma token_loop_defaults:
  "(length ts < 2 \<longrightarrow> t_lastPlayPos (token_loop ts 1 initial_fields) = 0)
   \<and> (length ts < 3 \<longrightarrow> t_mode (token_loop ts 1 initial_fields) = 1)
   \<and> (length ts < 4 \<longrightarrow> t_trackLastPlayed (token_loop ts 1 initial_fields) = 0)"
proof (cases ts)
  case Nil
  then show ?thesis by (simp add: initial_fields_def)
next
  case (Cons a ts1)
  show ?thesis
  proof (cases ts1)
    case Nil
    then show ?thesis using Cons by (simp add: initial_fields_def)
  next
    case (Cons b ts2)
    note c2 = this
    show ?thesis
    proof (cases ts2)
      case Nil
      then show ?thesis using c2 \<open>ts = a # ts1\<close> by (simp add: initial_fields_def)
    next
      case (Cons c ts3)
      then show ?thesis using c2 \<open>ts = a # ts1\<close> by (cases ts3) (simp_all add: initial_fields_def)
    qed
  qed
qed

lemma dec_string_short:
  assumes "n < 100"
  shows "length (dec_string n) \<le> 2"
proof (cases "n < 10")
  case True
  then show ?thesis by (subst dec_string.simps) simp
next
  case False
  have "n div 10 < 10" using assms by simp
  then have "length (dec_string (n div 10)) = 1" by (subst dec_string.simps) simp
  then show ?thesis using False by (subst dec_string.simps) simp
qed

lemma unat_ucast_u8_u32: "unat (ucast (m :: u8) :: u32) = unat m"
proof -
  have "unat m < 2 ^ 8" using unsigned_less [of m, where ?'a = nat] by simp
  then have "unat m < 2 ^ 32" by simp
  then show ?thesis by (simp add: unsigned_ucast_eq take_bit_nat_eq_self)
qed

lemma stored_record_decodes:
  assumes "stringDelimiter c = [d]" and "\<not> is_digit d"
    and "file \<noteq> []" and "d \<notin> set file" and "length file < 255"
    and "0 < m" and "m < (100 :: u8)"
    and "store tagId = Some (rfidString_of c file m)"
  shows "rfidString_of c file m = [d] @ file @ [d] @ ''0'' @ [d] @ dec_string (unat m) @ [d] @ ''0''"
    and "tagIdToJSON c store tagId [] = Inr (True, file_entry tagId file (unat m) 0 0)"
proof -
  have um: "unat m < 100" using assms(7) by (simp add: word_less_nat_alt)
  have d0: "d \<noteq> CHR ''0''" using assms(2) by (auto simp: is_digit_def)
  have dm: "d \<notin> set (dec_string (unat m))" using dec_string_digits [of "unat m"] assms(2) by auto
  let ?r = "[d] @ file @ [d] @ ''0'' @ [d] @ dec_string (unat m) @ [d] @ ''0''"
  have len: "length ?r \<le> 274" using assms(5) dec_string_short [OF um] by simp
  show r: "rfidString_of c file m = ?r"
    using len by (simp add: rfidString_of_def assms(1))
  have ne: "?r \<noteq> ''-1''"
  proof
    assume "?r = ''-1''"
    then have "length ?r = length ''-1''" by (rule arg_cong)
    then show False by simp
  qed
  have toks: "strtok_tokens (stringDelimiter c) [] ?r = [file, ''0'', dec_string (unat m), ''0'']"
    unfolding assms(1)
    by (rule tokens_of_record [OF assms(4) assms(3) dm dec_string_nonempty d0])
  have mode: "strtoul10 (dec_string (unat m)) = ucast m"
    using strtoul10_dec_string [of "unat m"] um by simp
  note un = unat_ucast_u8_u32 [of m]
  have lt: "\<not> (100 :: u32) \<le> ucast m"
    unfolding word_le_nat_alt un using um by simp
  have gs: "getString store tagId ''-1'' = ?r"
    using assms(8) r by (simp add: getString_def)
  show "tagIdToJSON c store tagId [] = Inr (True, file_entry tagId file (unat m) 0 0)"
    unfolding tagIdToJSON_def decode_fields_def gs Let_def toks token_loop_record
    using ne lt assms(5) un
    by (simp add: strncpy255_def mode file_entry_def)
qed

lemma assign_roundtrip:
  assumes h: "stringDelimiter c = [d]" "\<not> is_digit d" "json_id json \<noteq> []"
      "json_fileOrUrl json \<noteq> []" "d \<notin> set (json_fileOrUrl json)"
      "length (json_fileOrUrl json) < 255"
      "\<not> json_containsKey_modId json" "0 < json_playMode json" "json_playMode json < 100"
  shows "\<exists>s'. handlePostRFIDRequest c True json s = Inr s'
         \<and> web_trace s' = web_trace s @
              [Web_DumpNvsToSd ''rfidTags'' (backupFile c),
               request_send_json (file_entry (json_id json) (json_fileOrUrl json)
                                    (unat (json_playMode json)) 0 0)]
         \<and> tagIdToJSON c (gPrefsRfid s') (json_id json) [] =
              Inr (True, file_entry (json_id json) (json_fileOrUrl json)
                           (unat (json_playMode json)) 0 0)"
proof -
  let ?r = "rfidString_of c (json_fileOrUrl json) (json_playMode json)"
  let ?store = "(gPrefsRfid s)(json_id json \<mapsto> ?r)"
  have st: "?store (json_id json) = Some ?r" by simp
  have look: "tagIdToJSON c ?store (json_id json) [] =
      Inr (True, file_entry (json_id json) (json_fileOrUrl json) (unat (json_playMode json)) 0 0)"
    by (rule stored_record_decodes(2) [where d = d and store = ?store, OF h(1,2,4,5,6,8,9) st])
  have nz: "\<not> json_playMode json \<le> 0" using h(8) by (simp add: word_gt_0)
  have ps: "putString True (gPrefsRfid s) (json_id json) ?r = ?store"
    by (simp add: putString_def)
  have gs: "getString ?store (json_id json) ''-1'' = ?r"
    by (simp add: getString_def)
  show ?thesis
    unfolding handlePostRFIDRequest_def Let_def
    using h(3,4,7) nz
    by (simp add: ps gs look web_emit_def)
qed


lemma lookup_variant:
  assumes "getString store tagId ''-1'' \<noteq> ''-1''"
  shows "(100 \<le> t_mode (decode_fields c (getString store tagId ''-1'')) \<longrightarrow>
           tagIdToJSON c store tagId [] =
             Inr (True, [(''id'', JString tagId),
                         (''modId'', JNumber (unat (t_mode (decode_fields c
                                                     (getString store tagId ''-1'')))))]))
        \<and> (t_mode (decode_fields c (getString store tagId ''-1'')) < 100 \<longrightarrow>
             (\<forall>r. tagIdToJSON c store tagId [] = Inr r \<longrightarrow>
                fst r \<and> map_of (snd r) ''modId'' = None
                \<and> map_of (snd r) ''playMode'' =
                    Some (JNumber (unat (t_mode (decode_fields c
                                                   (getString store tagId ''-1'')))))))"
proof (intro conjI impI allI)
  assume "100 \<le> t_mode (decode_fields c (getString store tagId ''-1''))"
  then show "tagIdToJSON c store tagId [] =
             Inr (True, [(''id'', JString tagId),
                         (''modId'', JNumber (unat (t_mode (decode_fields c
                                                     (getString store tagId ''-1'')))))])"
    using assms by (simp add: tagIdToJSON_def Let_def)
next
  fix r
  assume lt: "t_mode (decode_fields c (getString store tagId ''-1'')) < 100"
    and r: "tagIdToJSON c store tagId [] = Inr r"
  from lt have nle: "\<not> 100 \<le> t_mode (decode_fields c (getString store tagId ''-1''))"
    by (simp add: not_le)
  show "fst r" "map_of (snd r) ''modId'' = None"
    "map_of (snd r) ''playMode'' =
       Some (JNumber (unat (t_mode (decode_fields c (getString store tagId ''-1'')))))"
    using r assms nle
    by (cases "t_file (decode_fields c (getString store tagId ''-1''))";
        simp add: tagIdToJSON_def Let_def; fastforce)+
qed


lemma post_answers:
  assumes "handlePostRFIDRequest c accepted json s = Inr s'"
  shows "(\<exists>es msg. web_trace s' = web_trace s @ es @ [request_send_text 500 msg]
             \<and> Web_DumpNvsToSd ''rfidTags'' (backupFile c) \<notin> set es)
        \<or> (\<exists>obj. web_trace s' = web_trace s @
                     [Web_DumpNvsToSd ''rfidTags'' (backupFile c), request_send_json obj])"
proof (cases "json_id json = []")
  case True
  with assms have "web_trace s' = web_trace s @ [Log_Println ''/rfid (POST): Missing tag id'' LOGLEVEL_ERROR]
      @ [request_send_text 500 ''/rfid (POST): Missing tag id'']"
    by (auto simp: handlePostRFIDRequest_def web_emit_def)
  then show ?thesis by (intro disjI1 exI conjI) (assumption, simp)
next
  case id: False
  let ?m = "if json_containsKey_modId json then json_modId json else json_playMode json"
  show ?thesis
  proof (cases "?m \<le> 0")
    case True
    with assms id have "web_trace s' = web_trace s
        @ [Log_Println ''/rfid (POST): Invalid playMode or modId'' LOGLEVEL_ERROR]
        @ [request_send_text 500 ''/rfid (POST): Invalid playMode or modId'']"
      by (auto simp: handlePostRFIDRequest_def web_emit_def Let_def split: if_splits)
    then show ?thesis by (intro disjI1 exI conjI) (assumption, simp)
  next
    case m: False
    let ?f = "if json_fileOrUrl json = [] then ''0'' else json_fileOrUrl json"
    let ?r = "rfidString_of c ?f ?m"
    let ?s1 = "s\<lparr>gPrefsRfid := putString accepted (gPrefsRfid s) (json_id json) ?r\<rparr>"
    show ?thesis
    proof (cases "getString (gPrefsRfid ?s1) (json_id json) ''-1'' \<noteq> ?r")
      case True
      with assms id m have "s' = web_emit (request_send_text 500
             ''/rfid (POST): cannot save assignment to NVS'') ?s1"
        unfolding handlePostRFIDRequest_def Let_def by (simp split: if_splits)
      then have "web_trace s' = web_trace s @ []
          @ [request_send_text 500 ''/rfid (POST): cannot save assignment to NVS'']"
        by (simp add: web_emit_def)
      then show ?thesis by (intro disjI1 exI conjI) (assumption, simp)
    next
      case False
      let ?s2 = "web_emit (Web_DumpNvsToSd ''rfidTags'' (backupFile c)) ?s1"
      from assms id m False
      have "(case tagIdToJSON c (gPrefsRfid ?s2) (json_id json) [] of
               Inl e \<Rightarrow> Inl e
             | Inr (found, obj) \<Rightarrow> Inr (web_emit (request_send_json obj) ?s2)) = Inr s'"
        unfolding handlePostRFIDRequest_def Let_def by (simp split: if_splits)
      then obtain found obj where "s' = web_emit (request_send_json obj) ?s2"
        by (auto split: sum.splits prod.splits)
      then have "web_trace s' = web_trace s @
          [Web_DumpNvsToSd ''rfidTags'' (backupFile c), request_send_json obj]"
        by (simp add: web_emit_def)
      then show ?thesis by blast
    qed
  qed
qed


text \<open>
  C5, as the code has it. When the delimiter is one character that is not a digit, the
  store accepts the write, the tag id is not empty, \<open>fileOrUrl\<close> is not empty, does not
  contain the delimiter and is shorter than 255 characters, and \<open>playMode\<close> is between 1
  and 99, the assignment calls the backup and answers with the record, and a lookup of the
  tag gives the record with the \<open>fileOrUrl\<close> and \<open>playMode\<close> of the request and with
  \<open>lastPlayPos\<close> and \<open>trackLastPlayed\<close> 0. Decoding a stored string with fewer than
  two, three or four fields leaves the position 0, the mode 1 and the last track 0. A
  lookup of a stored string gives the module variant when the decoded mode is at least
  100, and a file record with that mode (and no \<open>modId\<close>) when it is below. Every POST
  that returns either answers with a 500 without calling the backup, or calls the backup
  and then answers with the record.
\<close>

theorem tag_assignment_roundtrip:
  "(stringDelimiter c = [d] \<and> \<not> is_digit d \<and> json_id json \<noteq> []
      \<and> json_fileOrUrl json \<noteq> [] \<and> d \<notin> set (json_fileOrUrl json)
      \<and> length (json_fileOrUrl json) < 255
      \<and> \<not> json_containsKey_modId json \<and> 0 < json_playMode json \<and> json_playMode json < 100 \<longrightarrow>
      (\<exists>s'. handlePostRFIDRequest c True json s = Inr s'
         \<and> web_trace s' = web_trace s @
              [Web_DumpNvsToSd ''rfidTags'' (backupFile c),
               request_send_json (file_entry (json_id json) (json_fileOrUrl json)
                                    (unat (json_playMode json)) 0 0)]
         \<and> tagIdToJSON c (gPrefsRfid s') (json_id json) [] =
              Inr (True, file_entry (json_id json) (json_fileOrUrl json)
                           (unat (json_playMode json)) 0 0)))
   \<and> ((length ts < 2 \<longrightarrow> t_lastPlayPos (token_loop ts 1 initial_fields) = 0)
      \<and> (length ts < 3 \<longrightarrow> t_mode (token_loop ts 1 initial_fields) = 1)
      \<and> (length ts < 4 \<longrightarrow> t_trackLastPlayed (token_loop ts 1 initial_fields) = 0))
   \<and> (getString store tagId ''-1'' \<noteq> ''-1'' \<longrightarrow>
        (100 \<le> t_mode (decode_fields c (getString store tagId ''-1'')) \<longrightarrow>
           tagIdToJSON c store tagId [] =
             Inr (True, [(''id'', JString tagId),
                         (''modId'', JNumber (unat (t_mode (decode_fields c
                                                     (getString store tagId ''-1'')))))]))
        \<and> (t_mode (decode_fields c (getString store tagId ''-1'')) < 100 \<longrightarrow>
             (\<forall>r. tagIdToJSON c store tagId [] = Inr r \<longrightarrow>
                fst r \<and> map_of (snd r) ''modId'' = None
                \<and> map_of (snd r) ''playMode'' =
                    Some (JNumber (unat (t_mode (decode_fields c
                                                   (getString store tagId ''-1''))))))))
   \<and> (handlePostRFIDRequest c accepted json2 s2 = Inr s2' \<longrightarrow>
        (\<exists>es msg. web_trace s2' = web_trace s2 @ es @ [request_send_text 500 msg]
             \<and> Web_DumpNvsToSd ''rfidTags'' (backupFile c) \<notin> set es)
        \<or> (\<exists>obj. web_trace s2' = web_trace s2 @
                     [Web_DumpNvsToSd ''rfidTags'' (backupFile c), request_send_json obj]))"
proof (intro conjI)
  show "stringDelimiter c = [d] \<and> \<not> is_digit d \<and> json_id json \<noteq> []
      \<and> json_fileOrUrl json \<noteq> [] \<and> d \<notin> set (json_fileOrUrl json)
      \<and> length (json_fileOrUrl json) < 255
      \<and> \<not> json_containsKey_modId json \<and> 0 < json_playMode json \<and> json_playMode json < 100 \<longrightarrow>
      (\<exists>s'. handlePostRFIDRequest c True json s = Inr s'
         \<and> web_trace s' = web_trace s @
              [Web_DumpNvsToSd ''rfidTags'' (backupFile c),
               request_send_json (file_entry (json_id json) (json_fileOrUrl json)
                                    (unat (json_playMode json)) 0 0)]
         \<and> tagIdToJSON c (gPrefsRfid s') (json_id json) [] =
              Inr (True, file_entry (json_id json) (json_fileOrUrl json)
                           (unat (json_playMode json)) 0 0))"
    using assign_roundtrip [of c d json s] by blast
  show "length ts < 2 \<longrightarrow> t_lastPlayPos (token_loop ts 1 initial_fields) = 0"
    "length ts < 3 \<longrightarrow> t_mode (token_loop ts 1 initial_fields) = 1"
    "length ts < 4 \<longrightarrow> t_trackLastPlayed (token_loop ts 1 initial_fields) = 0"
    using token_loop_defaults [of ts] by simp_all
  show "getString store tagId ''-1'' \<noteq> ''-1'' \<longrightarrow>
        (100 \<le> t_mode (decode_fields c (getString store tagId ''-1'')) \<longrightarrow>
           tagIdToJSON c store tagId [] =
             Inr (True, [(''id'', JString tagId),
                         (''modId'', JNumber (unat (t_mode (decode_fields c
                                                     (getString store tagId ''-1'')))))]))
        \<and> (t_mode (decode_fields c (getString store tagId ''-1'')) < 100 \<longrightarrow>
             (\<forall>r. tagIdToJSON c store tagId [] = Inr r \<longrightarrow>
                fst r \<and> map_of (snd r) ''modId'' = None
                \<and> map_of (snd r) ''playMode'' =
                    Some (JNumber (unat (t_mode (decode_fields c
                                                   (getString store tagId ''-1'')))))))"
    by (rule impI) (rule lookup_variant)
  show "handlePostRFIDRequest c accepted json2 s2 = Inr s2' \<longrightarrow>
        (\<exists>es msg. web_trace s2' = web_trace s2 @ es @ [request_send_text 500 msg]
             \<and> Web_DumpNvsToSd ''rfidTags'' (backupFile c) \<notin> set es)
        \<or> (\<exists>obj. web_trace s2' = web_trace s2 @
                     [Web_DumpNvsToSd ''rfidTags'' (backupFile c), request_send_json obj])"
    by (rule impI) (rule post_answers)
qed


theorem tag_assignment_roundtrip_witness:
  "assign_then_lookup example_consts example_post example_web
     = Inr (True, file_entry ''1234'' ''/music/a.mp3'' 1 0 0)"
proof -
  have h: "stringDelimiter example_consts = [CHR ''#''] \<and> \<not> is_digit CHR ''#''
      \<and> json_id example_post \<noteq> []
      \<and> json_fileOrUrl example_post \<noteq> [] \<and> CHR ''#'' \<notin> set (json_fileOrUrl example_post)
      \<and> length (json_fileOrUrl example_post) < 255
      \<and> \<not> json_containsKey_modId example_post \<and> 0 < json_playMode example_post
      \<and> json_playMode example_post < 100"
    by (simp add: example_consts_def example_post_def is_digit_def)
  from tag_assignment_roundtrip [of example_consts "CHR ''#''" example_post example_web] h
  obtain s' where s': "handlePostRFIDRequest example_consts True example_post example_web = Inr s'"
    "tagIdToJSON example_consts (gPrefsRfid s') (json_id example_post) [] =
       Inr (True, file_entry (json_id example_post) (json_fileOrUrl example_post)
                    (unat (json_playMode example_post)) 0 0)"
    by blast
  show ?thesis
    unfolding assign_then_lookup_def s'(1)
    using s'(2) by (simp add: example_post_def)
qed

lemma char_of_49: "char_of (49::nat) = CHR ''1''"
  by code_simp

text \<open>
  The claim C5 as it is worded fails for a \<open>fileOrUrl\<close> that contains the delimiter: the
  lookup after assigning \<open>/music/a#1.mp3\<close> with play mode 1 gives the file \<open>/music/a\<close>,
  play mode 0, position 1 and last track 1.
\<close>

theorem tag_assignment_delimiter_counterexample:
  "assign_then_lookup example_consts (example_post\<lparr>json_fileOrUrl := ''/music/a#1.mp3''\<rparr>)
     example_web
   = Inr (True, file_entry ''1234'' ''/music/a'' 0 1 1)"
  by (simp add: assign_then_lookup_def handlePostRFIDRequest_def tagIdToJSON_def
      decode_fields_def rfidString_of_def putString_def getString_def web_emit_def
      example_consts_def example_post_def example_web_def file_entry_def Let_def
      dec_string.simps strncpy255_def strtoul10_def isspace_def is_digit_def dec_value_def
      digit_val_def initial_fields_def char_of_49)

end
